theory Spec2Isabelle
  imports Complex_Main "HOL-Library.AList"
begin

section \<open>Frequency calculator (client/src/lib/piano.ts and its page-local copies)\<close>

text \<open>
  JavaScript numbers that hold times, gains and frequencies are modelled as reals, so
  \<^verbatim>\<open>Math.pow(2, x)\<close> is \<open>2 powr x\<close> and the rounding of IEEE doubles is not part of the
  model. Octaves, identifiers, counters and millisecond timestamps are integers.
\<close>

definition NOTE_NAMES :: "string list" where
  "NOTE_NAMES =
     [''C'', ''C#'', ''D'', ''D#'', ''E'', ''F'', ''F#'', ''G'', ''G#'', ''A'', ''A#'', ''B'']"

text \<open>\<^verbatim>\<open>Array.prototype.indexOf\<close>: the first index holding the element, or \<open>-1\<close>.\<close>

fun indexOf :: "'a list \<Rightarrow> 'a \<Rightarrow> int" where
  "indexOf [] x = - 1"
| "indexOf (y # ys) x =
     (if y = x then 0 else (let i = indexOf ys x in if i = - 1 then - 1 else i + 1))"

text \<open>\<^verbatim>\<open>getNoteFrequency\<close> as exported by lib/piano.ts (the one the sequencer imports).\<close>

definition getNoteFrequency :: "string \<Rightarrow> int \<Rightarrow> real" where
  "getNoteFrequency note octave =
     (let noteIndex = indexOf NOTE_NAMES note in
      if noteIndex = - 1 then 0
      else
        let a4Index = 9;
            a4Octave = 4;
            a4Frequency = 440;
            semitones = (octave - a4Octave) * 12 + (noteIndex - a4Index)
        in a4Frequency * 2 powr (real_of_int semitones / 12))"

text \<open>
  The private copy of \<^verbatim>\<open>getNoteFrequency\<close> inside pages/PianoSoundboard.tsx
  (\<^verbatim>\<open>return 440; // Default to A4 if note not found\<close>); pages/SoundPackEditor.tsx
  holds a third copy with the same fallback.
\<close>

definition getNoteFrequency_PianoSoundboard :: "string \<Rightarrow> int \<Rightarrow> real" where
  "getNoteFrequency_PianoSoundboard note octave =
     (let noteIndex = indexOf NOTE_NAMES note in
      if noteIndex = - 1 then 440
      else
        let a4Index = 9;
            a4Octave = 4;
            a4Frequency = 440;
            semitones = (octave - a4Octave) * 12 + (noteIndex - a4Index)
        in a4Frequency * 2 powr (real_of_int semitones / 12))"


text \<open>
  \<^verbatim>\<open>getNoteFrequency\<close> of lib/piano.ts once more, with the three operations that round
  taken as parameters: the division \<^verbatim>\<open>semitones / 12\<close>, \<^verbatim>\<open>Math.pow\<close> (whose accuracy the
  language leaves to the platform) and the product with 440. With the exact operations
  it is \<open>getNoteFrequency\<close>.
\<close>

definition getNoteFrequency_binary64 ::
  "(real \<Rightarrow> real \<Rightarrow> real) \<Rightarrow> (real \<Rightarrow> real \<Rightarrow> real) \<Rightarrow> (real \<Rightarrow> real \<Rightarrow> real) \<Rightarrow>
   string \<Rightarrow> int \<Rightarrow> real" where
  "getNoteFrequency_binary64 num_div num_mul num_pow note octave =
     (let noteIndex = indexOf NOTE_NAMES note in
      if noteIndex = - 1 then 0
      else
        let a4Index = 9;
            a4Octave = 4;
            a4Frequency = 440;
            semitones = (octave - a4Octave) * 12 + (noteIndex - a4Index)
        in num_mul a4Frequency (num_pow 2 (num_div (real_of_int semitones) 12)))"

section \<open>Pattern sequencer (the SequencerGrid component)\<close>

text \<open>Record fields are named \<open>record_field\<close> after the source's field names.\<close>

record Note =
  note_id :: string
  note_note :: string
  note_octave :: int
  note_startTime :: real
  note_duration :: real
  note_velocity :: real

record ADSREnvelope =
  attack :: real
  decay :: real
  sustain :: real
  release :: real

text \<open>
  The calls made on a gain parameter, in call order, each with its value and its time:
  \<^verbatim>\<open>setValueAtTime(value, time)\<close> and \<^verbatim>\<open>linearRampToValueAtTime(value, time)\<close>.
\<close>

datatype GainEvent = SetValueAtTime real real | LinearRampToValueAtTime real real

text \<open>
  One oscillator with its private gain node, as \<^verbatim>\<open>playNote\<close> builds it: the audio sink's
  view of a dispatched note. \<open>osc_owner\<close> is the note id its \<^verbatim>\<open>onended\<close> handler closes
  over; \<open>osc_stopped\<close> records an immediate \<^verbatim>\<open>stop()\<close>, \<open>osc_connected\<close> falls with
  \<^verbatim>\<open>disconnect()\<close>.
\<close>

record Oscillator =
  osc_type :: string
  osc_frequency :: real
  osc_gain_value :: real
  osc_gain_events :: "GainEvent list"
  osc_start :: real
  osc_stop :: real
  osc_owner :: string
  osc_stopped :: bool
  osc_connected :: bool

text \<open>
  The component's props, state and refs, followed by the host's side: \<open>graph\<close> holds every
  oscillator created so far (an oscillator's handle is its index), \<open>intervals\<close> the
  running \<^verbatim>\<open>setInterval\<close> timers, \<open>frames\<close> the pending animation-frame requests, each
  with the value of \<^verbatim>\<open>isPlaying\<close> that its \<^verbatim>\<open>playStep\<close> closure captured. Timer and
  frame handles are positive and come from \<open>next_handle\<close>. The props and the pattern do
  not change while the sequencer runs, so the values a timer callback closes over are
  those of the state.
\<close>

record Sequencer =
  audioContext :: bool
  gainNode :: bool
  bpm :: real
  bars :: real
  "notes" :: "Note list"
  isPlaying :: bool
  currentBeat :: real
  rafRef :: "nat option"
  lastTimeRef :: real
  schedulerIntervalRef :: "nat option"
  oscillators :: "(string \<times> nat) list"
  graph :: "Oscillator list"
  intervals :: "nat list"
  frames :: "(nat \<times> bool) list"
  next_handle :: nat

definition totalBeats :: "Sequencer \<Rightarrow> real" where
  "totalBeats s = bars s * 4"

definition beatDuration :: "Sequencer \<Rightarrow> real" where
  "beatDuration s = 60000 / bpm s"

text \<open>The time and the value an automation call carries.\<close>

fun event_time :: "GainEvent \<Rightarrow> real" where
  "event_time (SetValueAtTime v t) = t"
| "event_time (LinearRampToValueAtTime v t) = t"

fun event_value :: "GainEvent \<Rightarrow> real" where
  "event_value (SetValueAtTime v t) = v"
| "event_value (LinearRampToValueAtTime v t) = v"

text \<open>
  \<^verbatim>\<open>playNote(note, startTime, duration)\<close>. The envelope is the literal the function
  binds locally; neither the component's props nor the note carry one.
\<close>

definition playNote :: "Note \<Rightarrow> real \<Rightarrow> real \<Rightarrow> Sequencer \<Rightarrow> Sequencer" where
  "playNote n start dur s =
     (if \<not> audioContext s \<or> \<not> gainNode s then s
      else
        let frequency = getNoteFrequency (note_note n) (note_octave n);
            envelope = \<lparr>attack = 0.01, decay = 0.1, sustain = 0.7, release = 0.3\<rparr>;
            osc = \<lparr>osc_type = ''sine'',
                   osc_frequency = frequency,
                   osc_gain_value = 0,
                   osc_gain_events =
                     [SetValueAtTime 0 start,
                      LinearRampToValueAtTime (note_velocity n) (start + attack envelope),
                      LinearRampToValueAtTime (note_velocity n * sustain envelope)
                        (start + attack envelope + decay envelope),
                      SetValueAtTime (note_velocity n * sustain envelope)
                        (start + dur - release envelope),
                      LinearRampToValueAtTime 0 (start + dur)],
                   osc_start = start,
                   osc_stop = start + dur + 0.05,
                   osc_owner = note_id n,
                   osc_stopped = False,
                   osc_connected = True\<rparr>;
            h = length (graph s)
        in s\<lparr>graph := graph s @ [osc],
             oscillators := AList.update (note_id n) h (oscillators s)\<rparr>)"

text \<open>The \<^verbatim>\<open>onended\<close> handler of oscillator \<open>h\<close>.\<close>

definition onended :: "nat \<Rightarrow> Sequencer \<Rightarrow> Sequencer" where
  "onended h s =
     (if h < length (graph s)
      then s\<lparr>oscillators := AList.delete (osc_owner (graph s ! h)) (oscillators s),
             graph := (graph s)[h := (graph s ! h)\<lparr>osc_connected := False\<rparr>]\<rparr>
      else s)"

definition stopAllNotes :: "Sequencer \<Rightarrow> Sequencer" where
  "stopAllNotes s =
     s\<lparr>graph :=
         fold (\<lambda>(k, h) g. g[h := (g ! h)\<lparr>osc_stopped := True, osc_connected := False\<rparr>])
           (oscillators s) (graph s),
       oscillators := []\<rparr>"

text \<open>\<open>currentTime\<close> is the reading of \<^verbatim>\<open>audioContext.currentTime\<close> when the tick runs.\<close>

definition scheduleNotes :: "real \<Rightarrow> Sequencer \<Rightarrow> Sequencer" where
  "scheduleNotes currentTime s =
     (if \<not> audioContext s \<or> \<not> gainNode s then s
      else
        let lookAheadTime = 0.1 in
        fold (\<lambda>n s'.
               let noteStartTime = note_startTime n * beatDuration s / 1000;
                   noteDuration = note_duration n * beatDuration s / 1000;
                   noteEndTime = noteStartTime + noteDuration
               in if noteStartTime \<ge> currentTime \<and> noteStartTime < currentTime + lookAheadTime
                  then playNote n noteStartTime noteDuration s'
                  else s')
          (notes s) s)"

text \<open>A ref that holds a handle or \<^verbatim>\<open>null\<close>, tested for truthiness.\<close>

definition truthy :: "nat option \<Rightarrow> bool" where
  "truthy r = (case r of None \<Rightarrow> False | Some h \<Rightarrow> h \<noteq> 0)"

definition startSequencer :: "real \<Rightarrow> Sequencer \<Rightarrow> Sequencer" where
  "startSequencer currentTime s =
     (if \<not> audioContext s then s
      else
        let f = next_handle s;
            t = f + 1
        in s\<lparr>isPlaying := True,
             currentBeat := 0,
             lastTimeRef := currentTime,
             frames := frames s @ [(f, isPlaying s)],
             schedulerIntervalRef := Some t,
             intervals := intervals s @ [t],
             next_handle := t + 1\<rparr>)"

definition stopSequencer :: "Sequencer \<Rightarrow> Sequencer" where
  "stopSequencer s =
     (let s1 = s\<lparr>isPlaying := False\<rparr>;
          s2 = (if truthy (rafRef s1)
                then s1\<lparr>frames := filter (\<lambda>(g, c). Some g \<noteq> rafRef s1) (frames s1),
                        rafRef := None\<rparr>
                else s1);
          s3 = (if truthy (schedulerIntervalRef s2)
                then s2\<lparr>intervals :=
                          filter (\<lambda>t. Some t \<noteq> schedulerIntervalRef s2) (intervals s2),
                        schedulerIntervalRef := None\<rparr>
                else s2)
      in stopAllNotes s3)"

definition togglePlay :: "real \<Rightarrow> Sequencer \<Rightarrow> Sequencer" where
  "togglePlay currentTime s =
     (if isPlaying s then stopSequencer s else startSequencer currentTime s)"

text \<open>JavaScript's \<^verbatim>\<open>%\<close> on numbers: the remainder has the sign of the dividend.\<close>

definition js_rem :: "real \<Rightarrow> real \<Rightarrow> real" where
  "js_rem a b =
     a - b * real_of_int (if 0 \<le> a / b then \<lfloor>a / b\<rfloor> else \<lceil>a / b\<rceil>)"

text \<open>
  The animation-frame callback; \<open>captured\<close> is the \<^verbatim>\<open>isPlaying\<close> of the render whose
  \<^verbatim>\<open>playStep\<close> was handed to \<^verbatim>\<open>requestAnimationFrame\<close>.
\<close>

definition playStep :: "bool \<Rightarrow> real \<Rightarrow> Sequencer \<Rightarrow> Sequencer" where
  "playStep captured currentTime s =
     (if \<not> captured \<or> \<not> audioContext s then s
      else
        let elapsed = currentTime - lastTimeRef s;
            beatPosition = (elapsed / beatDuration s) * 1000;
            currentBeatPosition = js_rem beatPosition (totalBeats s);
            f = next_handle s
        in s\<lparr>currentBeat := currentBeatPosition,
             rafRef := Some f,
             frames := frames s @ [(f, captured)],
             next_handle := f + 1\<rparr>)"

text \<open>
  What the host's event loop can deliver to the component: a click on the play button, a
  firing of interval \<open>t\<close>, the animation frame \<open>f\<close>, the end of oscillator \<open>h\<close>. The real
  argument is the audio clock at that moment. A cleared interval or a cancelled frame
  delivers nothing.
\<close>

datatype Event = Click real | Tick nat real | Frame nat real | Ended nat

fun step :: "Event \<Rightarrow> Sequencer \<Rightarrow> Sequencer" where
  "step (Click currentTime) s = togglePlay currentTime s"
| "step (Tick t currentTime) s =
     (if t \<in> set (intervals s) then scheduleNotes currentTime s else s)"
| "step (Frame f currentTime) s =
     (case map_of (frames s) f of
        None \<Rightarrow> s
      | Some captured \<Rightarrow>
          playStep captured currentTime (s\<lparr>frames := filter (\<lambda>(g, c). g \<noteq> f) (frames s)\<rparr>))"
| "step (Ended h) s = onended h s"

definition run :: "Event list \<Rightarrow> Sequencer \<Rightarrow> Sequencer" where
  "run evs s = fold step evs s"

text \<open>The freshly mounted, stopped component holding pattern \<open>ns\<close>, with audio available.\<close>

definition mounted :: "real \<Rightarrow> real \<Rightarrow> Note list \<Rightarrow> Sequencer" where
  "mounted b nbars ns =
     \<lparr>audioContext = True, gainNode = True, bpm = b, bars = nbars, notes = ns,
      isPlaying = False, currentBeat = 0, rafRef = None, lastTimeRef = 0,
      schedulerIntervalRef = None, oscillators = [], graph = [], intervals = [],
      frames = [], next_handle = 1\<rparr>"

text \<open>
  The bookkeeping of the scheduler's timer: while stopped no interval runs and the ref is
  empty; while playing the ref holds the one running interval.
\<close>

definition scheduler_timer :: "Sequencer \<Rightarrow> bool" where
  "scheduler_timer s =
     ((case schedulerIntervalRef s of
         None \<Rightarrow> \<not> isPlaying s \<and> intervals s = []
       | Some t \<Rightarrow> isPlaying s \<and> t \<noteq> 0 \<and> intervals s = [t]) \<and>
      0 < next_handle s)"

definition is_click :: "Event \<Rightarrow> bool" where
  "is_click e = (case e of Click now \<Rightarrow> True | _ \<Rightarrow> False)"

section \<open>Recording timer (components/piano/RecordingControls.tsx)\<close>

text \<open>The exported \<^verbatim>\<open>Note\<close> of the recorder: pitch, octave, milliseconds since the start.\<close>

record RecordedNote =
  rec_note :: string
  rec_octave :: int
  rec_time :: int

text \<open>
  The state and refs of \<^verbatim>\<open>RecordingControls\<close>. \<open>completed\<close> lists the buffers handed to
  \<^verbatim>\<open>onRecordingComplete\<close>, \<open>rec_intervals\<close> the host's running timers. The copy of the
  state kept on \<^verbatim>\<open>window\<close>, which the components only read when they mount, and the
  metronome's sound are left out; the custom events the component sends and receives are
  delivered by the page model below.
\<close>

record Recorder =
  rec_audioContext :: bool
  isRecording :: bool
  recordedNotes :: "RecordedNote list"
  startTimeRef :: "int option"
  tempo :: int
  metronomeEnabled :: bool
  isMetronomePlaying :: bool
  metronomeIntervalRef :: "nat option"
  recordingTime :: int
  recordingTimerRef :: "nat option"
  completed :: "RecordedNote list list"
  rec_intervals :: "nat list"
  rec_next_handle :: nat

text \<open>Truthiness of a \<^verbatim>\<open>number | null\<close>: \<^verbatim>\<open>null\<close> and \<open>0\<close> are falsy.\<close>

definition truthy_number :: "int option \<Rightarrow> bool" where
  "truthy_number r = (case r of None \<Rightarrow> False | Some t \<Rightarrow> t \<noteq> 0)"

definition startMetronome :: "int \<Rightarrow> Recorder \<Rightarrow> Recorder" where
  "startMetronome beats r =
     (if \<not> rec_audioContext r then r
      else
        let intervalId = rec_next_handle r
        in r\<lparr>rec_intervals := rec_intervals r @ [intervalId],
             rec_next_handle := intervalId + 1,
             metronomeIntervalRef := Some intervalId,
             isMetronomePlaying := True\<rparr>)"

definition stopMetronome :: "Recorder \<Rightarrow> Recorder" where
  "stopMetronome r =
     (let r1 = (if truthy (metronomeIntervalRef r)
                then r\<lparr>rec_intervals :=
                         filter (\<lambda>t. Some t \<noteq> metronomeIntervalRef r) (rec_intervals r),
                       metronomeIntervalRef := None\<rparr>
                else r)
      in r1\<lparr>isMetronomePlaying := False\<rparr>)"

text \<open>\<open>now\<close> is the value \<^verbatim>\<open>Date.now()\<close> returns inside the call.\<close>

definition startRecording :: "int \<Rightarrow> Recorder \<Rightarrow> Recorder" where
  "startRecording now r =
     (let startTime = now;
          timer = rec_next_handle r;
          r1 = r\<lparr>recordedNotes := [],
                 recordingTime := 0,
                 startTimeRef := Some startTime,
                 isRecording := True,
                 recordingTimerRef := Some timer,
                 rec_intervals := rec_intervals r @ [timer],
                 rec_next_handle := timer + 1\<rparr>
      in if metronomeEnabled r \<and> \<not> isMetronomePlaying r then startMetronome (tempo r) r1
         else r1)"

definition stopRecording :: "Recorder \<Rightarrow> Recorder" where
  "stopRecording r =
     (let r1 = r\<lparr>isRecording := False\<rparr>;
          r2 = (if truthy (recordingTimerRef r1)
                then r1\<lparr>rec_intervals :=
                          filter (\<lambda>t. Some t \<noteq> recordingTimerRef r1) (rec_intervals r1),
                        recordingTimerRef := None\<rparr>
                else r1);
          r3 = (if isMetronomePlaying r \<and> \<not> metronomeEnabled r then stopMetronome r2
                else r2)
      in r3\<lparr>completed := completed r3 @ [recordedNotes r]\<rparr>)"

text \<open>
  \<^verbatim>\<open>addNoteToRecording\<close> is defined in the component, but nothing calls it: notes reach the
  buffer through \<open>handleNoteAdded\<close> below.
\<close>

definition addNoteToRecording :: "string \<Rightarrow> int \<Rightarrow> int \<Rightarrow> Recorder \<Rightarrow> Recorder" where
  "addNoteToRecording pitch oct now r =
     (if isRecording r \<and> truthy_number (startTimeRef r)
      then
        let time = now - the (startTimeRef r);
            newNote = \<lparr>rec_note = pitch, rec_octave = oct, rec_time = time\<rparr>
        in r\<lparr>recordedNotes := recordedNotes r @ [newNote]\<rparr>
      else r)"

text \<open>The component as first mounted: idle, nothing recorded.\<close>

definition idle :: Recorder where
  "idle =
     \<lparr>rec_audioContext = True, isRecording = False, recordedNotes = [],
      startTimeRef = None, tempo = 120, metronomeEnabled = False,
      isMetronomePlaying = False, metronomeIntervalRef = None, recordingTime = 0,
      recordingTimerRef = None, completed = [], rec_intervals = [],
      rec_next_handle = 1\<rparr>"

subsection \<open>The page that hosts the recorder (pages/PianoSoundboard.tsx)\<close>

text \<open>
  The listener of \<^verbatim>\<open>piano:add-note\<close> inside \<^verbatim>\<open>RecordingControls\<close>: it appends the note object
  of the event as it comes (the event always carries one, so the listener's test of the
  object itself never fails).
\<close>

definition handleNoteAdded :: "RecordedNote \<Rightarrow> Recorder \<Rightarrow> Recorder" where
  "handleNoteAdded newNote r =
     (if isRecording r \<and> truthy_number (startTimeRef r)
      then r\<lparr>recordedNotes := recordedNotes r @ [newNote]\<rparr>
      else r)"

text \<open>
  The recording state of \<^verbatim>\<open>PianoSoundboard\<close>, with the \<^verbatim>\<open>RecordingControls\<close> it mounts
  while \<open>showRecordingModal\<close> holds. Both components keep a recording flag and a start
  timestamp of their own.
\<close>

record Soundboard =
  sb_octave :: int
  sb_isRecording :: bool
  recordedSequence :: "RecordedNote list"
  recordingStartTimeRef :: "int option"
  showRecordingModal :: bool
  controls :: Recorder

text \<open>
  The page's listeners of \<^verbatim>\<open>piano:start-recording\<close> and \<^verbatim>\<open>piano:stop-recording\<close>; \<open>now\<close> is
  the \<^verbatim>\<open>Date.now()\<close> the first one reads, \<open>ns\<close> the notes the event carries.
\<close>

definition handleStartRecording :: "RecordedNote list \<Rightarrow> int \<Rightarrow> Soundboard \<Rightarrow> Soundboard" where
  "handleStartRecording ns now p =
     p\<lparr>recordedSequence := ns, sb_isRecording := True, recordingStartTimeRef := Some now\<rparr>"

definition handleStopRecording :: "Soundboard \<Rightarrow> Soundboard" where
  "handleStopRecording p = p\<lparr>sb_isRecording := False, recordingStartTimeRef := None\<rparr>"

definition handleRecordingComplete :: "RecordedNote list \<Rightarrow> Soundboard \<Rightarrow> Soundboard" where
  "handleRecordingComplete ns p =
     p\<lparr>recordedSequence := ns, sb_isRecording := False, showRecordingModal := False\<rparr>"

text \<open>
  \<^verbatim>\<open>recordNoteIfRecording\<close>, which the page calls for every note it plays: it takes the
  note's time against the page's own start timestamp and sends \<^verbatim>\<open>piano:add-note\<close>, which
  the mounted \<^verbatim>\<open>RecordingControls\<close> receives.
\<close>

definition recordNoteIfRecording :: "string \<Rightarrow> int \<Rightarrow> Soundboard \<Rightarrow> Soundboard" where
  "recordNoteIfRecording pitch now p =
     (if sb_isRecording p \<and> truthy_number (recordingStartTimeRef p)
      then
        let noteTime = now - the (recordingStartTimeRef p);
            recordedNote = \<lparr>rec_note = pitch, rec_octave = sb_octave p, rec_time = noteTime\<rparr>;
            p1 = p\<lparr>recordedSequence := recordedSequence p @ [recordedNote]\<rparr>
        in if showRecordingModal p1
           then p1\<lparr>controls := handleNoteAdded recordedNote (controls p1)\<rparr>
           else p1
      else p)"

text \<open>
  \<^verbatim>\<open>RecordingControls.startRecording\<close> and \<^verbatim>\<open>stopRecording\<close> as they run inside the page: the
  component's own changes, the event it sends to the page's listener (which reads the
  clock again: \<open>later\<close>), and at the stop the completion callback, which is the page's
  \<^verbatim>\<open>handleRecordingComplete\<close>.
\<close>

definition RecordingControls_startRecording :: "int \<Rightarrow> int \<Rightarrow> Soundboard \<Rightarrow> Soundboard" where
  "RecordingControls_startRecording now later p =
     handleStartRecording [] later (p\<lparr>controls := startRecording now (controls p)\<rparr>)"

definition RecordingControls_stopRecording :: "Soundboard \<Rightarrow> Soundboard" where
  "RecordingControls_stopRecording p =
     handleRecordingComplete (recordedNotes (controls p))
       (handleStopRecording (p\<lparr>controls := stopRecording (controls p)\<rparr>))"

text \<open>The page with the recording dialog open, before anything is recorded.\<close>

definition recording_page :: Soundboard where
  "recording_page =
     \<lparr>sb_octave = 4, sb_isRecording = False, recordedSequence = [],
      recordingStartTimeRef = None, showRecordingModal = True, controls = idle\<rparr>"

section \<open>In-memory store and purchase routes (server/storage.ts, server/routes.ts)\<close>

text \<open>
  Rows as the schema declares them. A nullable column is an \<open>option\<close>, a
  \<^verbatim>\<open>Date\<close> is its millisecond timestamp.
\<close>

record User =
  user_id :: int
  user_username :: string
  user_password :: string
  user_createdAt :: int

record SoundPack =
  pack_id :: int
  pack_name :: string
  pack_description :: "string option"
  pack_userId :: int
  pack_price :: int
  pack_isPublic :: bool
  pack_downloads :: int
  pack_rating :: int
  pack_imageUrl :: "string option"
  pack_createdAt :: int
  pack_updatedAt :: int

record Sound =
  sound_id :: int
  sound_packId :: int
  sound_name :: string
  sound_note :: string
  sound_octave :: int
  sound_soundFile :: "string option"
  sound_waveform :: string
  sound_envelope :: ADSREnvelope
  sound_createdAt :: int

record Review =
  review_id :: int
  review_packId :: int
  review_userId :: int
  review_rating :: int
  review_comment :: "string option"
  review_createdAt :: int

record Purchase =
  purchase_id :: int
  purchase_userId :: int
  purchase_packId :: int
  purchase_price :: int
  purchase_createdAt :: int

text \<open>
  The insert types. An optional property is an \<open>option\<close>; for the optional and nullable
  strings \<open>None\<close> stands for both \<^verbatim>\<open>undefined\<close> and \<^verbatim>\<open>null\<close>, which the code treats
  alike.
\<close>

record InsertSoundPack =
  ins_pack_name :: string
  ins_pack_description :: "string option"
  ins_pack_userId :: int
  ins_pack_price :: "int option"
  ins_pack_isPublic :: "bool option"
  ins_pack_imageUrl :: "string option"

record InsertSound =
  ins_sound_packId :: int
  ins_sound_name :: string
  ins_sound_note :: string
  ins_sound_octave :: "int option"
  ins_sound_waveform :: "string option"
  ins_sound_envelope :: "ADSREnvelope option"
  ins_sound_soundFile :: "string option"

record InsertPurchase =
  ins_purchase_userId :: int
  ins_purchase_packId :: int
  ins_purchase_price :: int

text \<open>\<^verbatim>\<open>Partial<SoundPack>\<close>: each property present or absent.\<close>

record PartialSoundPack =
  upd_id :: "int option"
  upd_name :: "string option"
  upd_description :: "string option option"
  upd_userId :: "int option"
  upd_price :: "int option"
  upd_isPublic :: "bool option"
  upd_downloads :: "int option"
  upd_rating :: "int option"
  upd_imageUrl :: "string option option"
  upd_createdAt :: "int option"
  upd_updatedAt :: "int option"

text \<open>
  \<^verbatim>\<open>MemStorage\<close>: five \<^verbatim>\<open>Map\<close>s, kept as association lists in insertion order
  (\<open>AList.update\<close> overwrites in place or appends, as \<^verbatim>\<open>Map.set\<close> does), and five
  counters.
\<close>

record MemStorage =
  users :: "(int \<times> User) list"
  soundPacks :: "(int \<times> SoundPack) list"
  sounds :: "(int \<times> Sound) list"
  reviews :: "(int \<times> Review) list"
  purchases :: "(int \<times> Purchase) list"
  userIdCounter :: int
  soundPackIdCounter :: int
  soundIdCounter :: int
  reviewIdCounter :: int
  purchaseIdCounter :: int

text \<open>
  \<^verbatim>\<open>n + 1\<close> and \<^verbatim>\<open>n++\<close> on a JavaScript number that holds an integer. The sum is exact
  from \<open>-2^53\<close> up to \<open>2^53 - 1\<close>. From \<open>2^53\<close> on the doubles are 2 apart (below
  \<open>2^54\<close> in size) or more: the sum lies halfway between \<open>n\<close> and \<open>n + 2\<close> and goes to
  the one with the even significand, which is \<open>n\<close> when 4 divides \<open>n\<close>, or it is nearest
  to \<open>n\<close> itself.
\<close>

definition js_succ :: "int \<Rightarrow> int" where
  "js_succ n =
     (if - (2 ^ 53) \<le> n \<and> n < 2 ^ 53 then n + 1
      else if \<bar>n\<bar> < 2 ^ 54 \<and> n mod 4 = 2 then n + 2
      else n)"

definition MemStorage_new :: MemStorage where
  "MemStorage_new =
     \<lparr>users = [], soundPacks = [], sounds = [], reviews = [], purchases = [],
      userIdCounter = 1, soundPackIdCounter = 1, soundIdCounter = 1,
      reviewIdCounter = 1, purchaseIdCounter = 1\<rparr>"

text \<open>\<^verbatim>\<open>x || d\<close> on an optional string: absent, \<^verbatim>\<open>null\<close> and the empty string give \<open>d\<close>.\<close>

definition string_or_null :: "string option \<Rightarrow> string option" where
  "string_or_null x = (case x of None \<Rightarrow> None | Some v \<Rightarrow> if v = [] then None else Some v)"

definition getSoundPack :: "int \<Rightarrow> MemStorage \<Rightarrow> SoundPack option" where
  "getSoundPack k st = map_of (soundPacks st) k"

definition createSoundPack :: "InsertSoundPack \<Rightarrow> int \<Rightarrow> MemStorage \<Rightarrow> SoundPack \<times> MemStorage" where
  "createSoundPack insertSoundPack now st =
     (let k = soundPackIdCounter st;
          createdAt = now;
          updatedAt = createdAt;
          soundPack =
            \<lparr>pack_id = k,
             pack_name = ins_pack_name insertSoundPack,
             pack_description = string_or_null (ins_pack_description insertSoundPack),
             pack_userId = ins_pack_userId insertSoundPack,
             pack_price = (case ins_pack_price insertSoundPack of None \<Rightarrow> 0 | Some v \<Rightarrow> v),
             pack_isPublic =
               (case ins_pack_isPublic insertSoundPack of None \<Rightarrow> True | Some v \<Rightarrow> v),
             pack_downloads = 0,
             pack_rating = 0,
             pack_imageUrl = string_or_null (ins_pack_imageUrl insertSoundPack),
             pack_createdAt = createdAt,
             pack_updatedAt = updatedAt\<rparr>
      in (soundPack,
          st\<lparr>soundPackIdCounter := js_succ k,
             soundPacks := AList.update k soundPack (soundPacks st)\<rparr>))"

text \<open>The object spread \<^verbatim>\<open>{...soundPack, ...updates}\<close>.\<close>

definition spread :: "SoundPack \<Rightarrow> PartialSoundPack \<Rightarrow> SoundPack" where
  "spread p u =
     \<lparr>pack_id = (case upd_id u of None \<Rightarrow> pack_id p | Some v \<Rightarrow> v),
      pack_name = (case upd_name u of None \<Rightarrow> pack_name p | Some v \<Rightarrow> v),
      pack_description =
        (case upd_description u of None \<Rightarrow> pack_description p | Some v \<Rightarrow> v),
      pack_userId = (case upd_userId u of None \<Rightarrow> pack_userId p | Some v \<Rightarrow> v),
      pack_price = (case upd_price u of None \<Rightarrow> pack_price p | Some v \<Rightarrow> v),
      pack_isPublic = (case upd_isPublic u of None \<Rightarrow> pack_isPublic p | Some v \<Rightarrow> v),
      pack_downloads = (case upd_downloads u of None \<Rightarrow> pack_downloads p | Some v \<Rightarrow> v),
      pack_rating = (case upd_rating u of None \<Rightarrow> pack_rating p | Some v \<Rightarrow> v),
      pack_imageUrl = (case upd_imageUrl u of None \<Rightarrow> pack_imageUrl p | Some v \<Rightarrow> v),
      pack_createdAt = (case upd_createdAt u of None \<Rightarrow> pack_createdAt p | Some v \<Rightarrow> v),
      pack_updatedAt = (case upd_updatedAt u of None \<Rightarrow> pack_updatedAt p | Some v \<Rightarrow> v)\<rparr>"

definition no_updates :: PartialSoundPack where
  "no_updates =
     \<lparr>upd_id = None, upd_name = None, upd_description = None, upd_userId = None,
      upd_price = None, upd_isPublic = None, upd_downloads = None, upd_rating = None,
      upd_imageUrl = None, upd_createdAt = None, upd_updatedAt = None\<rparr>"

definition updateSoundPack ::
  "int \<Rightarrow> PartialSoundPack \<Rightarrow> int \<Rightarrow> MemStorage \<Rightarrow> SoundPack option \<times> MemStorage" where
  "updateSoundPack k updates now st =
     (case getSoundPack k st of
        None \<Rightarrow> (None, st)
      | Some soundPack \<Rightarrow>
          let updatedPack = (spread soundPack updates)\<lparr>pack_updatedAt := now, pack_id := k\<rparr>
          in (Some updatedPack, st\<lparr>soundPacks := AList.update k updatedPack (soundPacks st)\<rparr>))"

definition getSoundsByPackId :: "int \<Rightarrow> MemStorage \<Rightarrow> Sound list" where
  "getSoundsByPackId packId st = filter (\<lambda>sound. sound_packId sound = packId) (map snd (sounds st))"

definition createSound :: "InsertSound \<Rightarrow> int \<Rightarrow> MemStorage \<Rightarrow> Sound \<times> MemStorage" where
  "createSound insertSound now st =
     (let k = soundIdCounter st;
          sound =
            \<lparr>sound_id = k,
             sound_packId = ins_sound_packId insertSound,
             sound_name = ins_sound_name insertSound,
             sound_note = ins_sound_note insertSound,
             sound_octave =
               (case ins_sound_octave insertSound of
                  None \<Rightarrow> 4 | Some v \<Rightarrow> if v = 0 then 4 else v),
             sound_soundFile = string_or_null (ins_sound_soundFile insertSound),
             sound_waveform =
               (case string_or_null (ins_sound_waveform insertSound) of
                  None \<Rightarrow> ''sine'' | Some v \<Rightarrow> v),
             sound_envelope =
               (case ins_sound_envelope insertSound of
                  None \<Rightarrow> \<lparr>attack = 0.1, decay = 0.2, sustain = 0.7, release = 0.5\<rparr>
                | Some v \<Rightarrow> v),
             sound_createdAt = now\<rparr>
      in (sound,
          st\<lparr>soundIdCounter := js_succ k, sounds := AList.update k sound (sounds st)\<rparr>))"

text \<open>\<^verbatim>\<open>Map.delete\<close> answers whether the key was present.\<close>

definition deleteSound :: "int \<Rightarrow> MemStorage \<Rightarrow> bool \<times> MemStorage" where
  "deleteSound k st =
     (map_of (sounds st) k \<noteq> None, st\<lparr>sounds := AList.delete k (sounds st)\<rparr>)"

definition deleteSoundPack :: "int \<Rightarrow> MemStorage \<Rightarrow> bool \<times> MemStorage" where
  "deleteSoundPack k st =
     (let packSounds = getSoundsByPackId k st;
          st1 = fold (\<lambda>sound acc. snd (deleteSound (sound_id sound) acc)) packSounds st
      in (map_of (soundPacks st1) k \<noteq> None,
          st1\<lparr>soundPacks := AList.delete k (soundPacks st1)\<rparr>))"

definition getUserPurchases :: "int \<Rightarrow> MemStorage \<Rightarrow> Purchase list" where
  "getUserPurchases userId st =
     filter (\<lambda>purchase. purchase_userId purchase = userId) (map snd (purchases st))"

definition hasPurchased :: "int \<Rightarrow> int \<Rightarrow> MemStorage \<Rightarrow> bool" where
  "hasPurchased userId packId st =
     list_ex (\<lambda>purchase. purchase_packId purchase = packId) (getUserPurchases userId st)"

text \<open>
  \<open>now\<close> is the \<^verbatim>\<open>new Date()\<close> of \<^verbatim>\<open>createPurchase\<close>, \<open>later\<close> the one taken inside
  \<^verbatim>\<open>updateSoundPack\<close>.
\<close>

definition createPurchase ::
  "InsertPurchase \<Rightarrow> int \<Rightarrow> int \<Rightarrow> MemStorage \<Rightarrow> Purchase \<times> MemStorage" where
  "createPurchase insertPurchase now later st =
     (let k = purchaseIdCounter st;
          purchase =
            \<lparr>purchase_id = k,
             purchase_userId = ins_purchase_userId insertPurchase,
             purchase_packId = ins_purchase_packId insertPurchase,
             purchase_price = ins_purchase_price insertPurchase,
             purchase_createdAt = now\<rparr>;
          st1 = st\<lparr>purchaseIdCounter := js_succ k,
                  purchases := AList.update k purchase (purchases st)\<rparr>
      in case getSoundPack (ins_purchase_packId insertPurchase) st1 of
           None \<Rightarrow> (purchase, st1)
         | Some soundPack \<Rightarrow>
             (purchase,
              snd (updateSoundPack (ins_purchase_packId insertPurchase)
                     (no_updates\<lparr>upd_downloads := Some (js_succ (pack_downloads soundPack))\<rparr>)
                     later st1)))"

text \<open>
  The two routes that create a purchase and delete a pack, reduced to the status code they
  answer with and the store they leave. A path or body parameter is what \<^verbatim>\<open>parseInt\<close>
  made of it: \<open>None\<close> is \<^verbatim>\<open>NaN\<close>.
\<close>

definition post_purchases ::
  "int option \<Rightarrow> int option \<Rightarrow> int \<Rightarrow> int \<Rightarrow> MemStorage \<Rightarrow> nat \<times> MemStorage" where
  "post_purchases userId packId now later st =
     (case (userId, packId) of
        (Some u, Some p) \<Rightarrow>
          if hasPurchased u p st then (400, st)
          else
            (case getSoundPack p st of
               None \<Rightarrow> (404, st)
             | Some soundPack \<Rightarrow>
                 (201,
                  snd (createPurchase
                         \<lparr>ins_purchase_userId = u, ins_purchase_packId = p,
                          ins_purchase_price = pack_price soundPack\<rparr>
                         now later st)))
      | _ \<Rightarrow> (400, st))"

definition delete_soundpacks :: "int option \<Rightarrow> MemStorage \<Rightarrow> nat \<times> MemStorage" where
  "delete_soundpacks k st =
     (case k of
        None \<Rightarrow> (404, st)
      | Some i \<Rightarrow>
          let (success, st1) = deleteSoundPack i st
          in if \<not> success then (404, st1) else (200, st1))"

text \<open>Every pack is stored under its own id.\<close>

definition packs_keyed :: "MemStorage \<Rightarrow> bool" where
  "packs_keyed st = list_all (\<lambda>(k, p). pack_id p = k) (soundPacks st)"

section \<open>Sample data\<close>

text \<open>Three patterns of one quarter note each, at beats 0, 1 and 2, as the grid creates them.\<close>

definition note_at_beat0 :: Note where
  "note_at_beat0 =
     \<lparr>note_id = ''note-0'', note_note = ''C'', note_octave = 4, note_startTime = 0,
      note_duration = 1, note_velocity = 0.7\<rparr>"

definition note_at_beat1 :: Note where
  "note_at_beat1 =
     \<lparr>note_id = ''note-1'', note_note = ''E'', note_octave = 4, note_startTime = 1,
      note_duration = 1, note_velocity = 0.7\<rparr>"

definition note_at_beat2 :: Note where
  "note_at_beat2 =
     \<lparr>note_id = ''note-2'', note_note = ''A'', note_octave = 4, note_startTime = 2,
      note_duration = 1, note_velocity = 0.7\<rparr>"

text \<open>A note at full velocity.\<close>

definition loud_note :: Note where
  "loud_note =
     \<lparr>note_id = ''note-9'', note_note = ''A'', note_octave = 4, note_startTime = 0,
      note_duration = 4, note_velocity = 1\<rparr>"

text \<open>Two packs as a client would post them, and the store holding both.\<close>

definition grand_pack :: InsertSoundPack where
  "grand_pack =
     \<lparr>ins_pack_name = ''Grand'', ins_pack_description = None, ins_pack_userId = 1,
      ins_pack_price = Some 499, ins_pack_isPublic = Some True, ins_pack_imageUrl = None\<rparr>"

definition organ_pack :: InsertSoundPack where
  "organ_pack =
     \<lparr>ins_pack_name = ''Organ'', ins_pack_description = Some ''Drawbars'',
      ins_pack_userId = 2, ins_pack_price = None, ins_pack_isPublic = None,
      ins_pack_imageUrl = None\<rparr>"

definition grand_sound :: InsertSound where
  "grand_sound =
     \<lparr>ins_sound_packId = 1, ins_sound_name = ''Middle C'', ins_sound_note = ''C'',
      ins_sound_octave = Some 4, ins_sound_waveform = None, ins_sound_envelope = None,
      ins_sound_soundFile = None\<rparr>"

definition two_packs :: MemStorage where
  "two_packs =
     snd (createSoundPack organ_pack 1001 (snd (createSoundPack grand_pack 1000 MemStorage_new)))"

section \<open>Frequency calculator: properties\<close>

lemma indexOf_lower_bound: "- 1 \<le> indexOf xs x"
  by (induction xs) (auto simp: Let_def)

lemma indexOf_member: "x \<in> set xs \<Longrightarrow> indexOf xs x \<noteq> - 1"
proof (induction xs)
  case Nil
  then show ?case by simp
next
  case (Cons a xs)
  then show ?case using indexOf_lower_bound [of xs x] by (auto simp: Let_def)
qed

lemma indexOf_absent: "x \<notin> set xs \<Longrightarrow> indexOf xs x = - 1"
  by (induction xs) (auto simp: Let_def)

lemma indexOf_A: "indexOf NOTE_NAMES ''A'' = 9"
  by (simp add: NOTE_NAMES_def)

lemma getNoteFrequency_unknown:
  "pitch \<notin> set NOTE_NAMES \<Longrightarrow> getNoteFrequency pitch octave = 0"
  by (simp add: getNoteFrequency_def indexOf_absent)

lemma getNoteFrequency_PianoSoundboard_unknown:
  "pitch \<notin> set NOTE_NAMES \<Longrightarrow> getNoteFrequency_PianoSoundboard pitch octave = 440"
  by (simp add: getNoteFrequency_PianoSoundboard_def indexOf_absent)

text \<open>
  Claim C3. For a note name outside the twelve chromatic names the frequency calculator
  is to answer the fallback of 440 Hz. The calculator of lib/piano.ts answers 0 for the
  name \<open>H\<close> at octave 4; the page-local copy answers 440 there. Neither raises.
\<close>

theorem C3_unknown_note_is_zero_in_lib:
  "''H'' \<notin> set NOTE_NAMES \<and> getNoteFrequency ''H'' 4 = 0 \<and>
   getNoteFrequency ''H'' 4 \<noteq> 440 \<and> getNoteFrequency_PianoSoundboard ''H'' 4 = 440"
  by (simp add: getNoteFrequency_def getNoteFrequency_PianoSoundboard_def NOTE_NAMES_def)

text \<open>
  Claim C7. For each of the twelve chromatic names and every integer octave the
  calculator returns \<open>440 * 2 powr (semitones / 12)\<close> with
  \<open>semitones = (octave - 4) * 12 + (index note - index A)\<close>, and the frequency of A in
  octave 4 is 440.
\<close>

theorem C7_equal_tempered_frequency:
  assumes "pitch \<in> set NOTE_NAMES"
  shows "getNoteFrequency pitch octave =
           440 * 2 powr (real_of_int ((octave - 4) * 12 +
                           (indexOf NOTE_NAMES pitch - indexOf NOTE_NAMES ''A'')) / 12)
         \<and> getNoteFrequency ''A'' 4 = 440"
  using assms by (simp add: getNoteFrequency_def indexOf_A indexOf_member Let_def)

theorem C7_witness:
  "''F#'' \<in> set NOTE_NAMES \<and> getNoteFrequency ''F#'' 5 = 440 * 2 powr (9 / 12) \<and>
   getNoteFrequency ''A'' 4 = 440"
  using C7_equal_tempered_frequency [of "''F#''" 5] by (simp add: NOTE_NAMES_def)


lemma getNoteFrequency_binary64_exact:
  "getNoteFrequency_binary64 (\<lambda>x y. x / y) (\<lambda>x y. x * y) (\<lambda>x y. x powr y) pitch octave =
     getNoteFrequency pitch octave"
  by (simp add: getNoteFrequency_binary64_def getNoteFrequency_def)







section \<open>Pattern sequencer: properties\<close>

lemmas sequencer_defs =
  run_def togglePlay_def startSequencer_def stopSequencer_def stopAllNotes_def
  scheduleNotes_def playNote_def beatDuration_def
  totalBeats_def truthy_def mounted_def Let_def

subsection \<open>What a tick dispatches\<close>

lemma playNote_audio:
  "audioContext (playNote n start dur s) = audioContext s \<and>
   gainNode (playNote n start dur s) = gainNode s"
  by (simp add: playNote_def Let_def)

lemma playNote_owners:
  assumes "audioContext s" and "gainNode s"
  shows "map osc_owner (graph (playNote n start dur s)) =
           map osc_owner (graph s) @ [note_id n]"
  using assms by (simp add: playNote_def Let_def)

text \<open>
  A tick at audio clock \<open>now\<close> creates one oscillator for every note whose
  \<open>note_startTime * beatDuration / 1000\<close> lies in \<open>[now, now + 0.1)\<close>, in pattern
  order, and for no other note.
\<close>

lemma scheduleNotes_dispatches:
  assumes "audioContext s" and "gainNode s"
  shows "map osc_owner (graph (scheduleNotes now s)) =
           map osc_owner (graph s) @
           map note_id
             (filter (\<lambda>n. now \<le> note_startTime n * beatDuration s / 1000 \<and>
                          note_startTime n * beatDuration s / 1000 < now + 0.1)
                (notes s))"
proof -
  define W where "W = (\<lambda>n::Note. now \<le> note_startTime n * beatDuration s / 1000 \<and>
                          note_startTime n * beatDuration s / 1000 < now + 0.1)"
  define F where "F = (\<lambda>(n::Note) s'. if W n
                     then playNote n (note_startTime n * beatDuration s / 1000)
                            (note_duration n * beatDuration s / 1000) s'
                     else s')"
  have loop: "audioContext (fold F ns s') \<and> gainNode (fold F ns s') \<and>
              map osc_owner (graph (fold F ns s')) =
                map osc_owner (graph s') @ map note_id (filter W ns)"
    if "audioContext s'" and "gainNode s'" for ns s'
    using that
  proof (induction ns arbitrary: s')
    case Nil
    then show ?case by simp
  next
    case (Cons n ns)
    show ?case
    proof (cases "W n")
      case True
      let ?s1 = "playNote n (note_startTime n * beatDuration s / 1000)
                   (note_duration n * beatDuration s / 1000) s'"
      have a: "audioContext ?s1" and g: "gainNode ?s1"
        using Cons.prems by (simp_all add: playNote_audio)
      have o: "map osc_owner (graph ?s1) = map osc_owner (graph s') @ [note_id n]"
        using Cons.prems by (simp add: playNote_owners)
      have "F n s' = ?s1" using True by (simp add: F_def)
      with Cons.IH [OF a g] o True show ?thesis by simp
    next
      case False
      then have "F n s' = s'" by (simp add: F_def)
      with Cons.IH [OF Cons.prems] False show ?thesis by simp
    qed
  qed
  have "scheduleNotes now s = fold F (notes s) s"
    using assms by (simp add: scheduleNotes_def Let_def F_def W_def)
  with loop [OF assms] show ?thesis
    by (simp add: W_def)
qed

lemma scheduleNotes_none:
  assumes "\<forall>n \<in> set (notes s). note_startTime n * beatDuration s / 1000 < now"
  shows "scheduleNotes now s = s"
proof -
  have "fold (\<lambda>n s'. if now \<le> note_startTime n * beatDuration s / 1000 \<and>
                         note_startTime n * beatDuration s / 1000 < now + 0.1
                      then playNote n (note_startTime n * beatDuration s / 1000)
                             (note_duration n * beatDuration s / 1000) s'
                      else s') ns s0 = s0"
    if "\<forall>n \<in> set ns. note_startTime n * beatDuration s / 1000 < now" for ns s0
    using that by (induction ns arbitrary: s0) auto
  from this [OF assms] show ?thesis
    by (simp add: scheduleNotes_def Let_def)
qed

lemma ticks_after_every_start:
  assumes "\<forall>n \<in> set (notes s). note_startTime n * beatDuration s / 1000 \<le> 0"
    and "\<forall>k \<in> set ks. 0 < k"
  shows "fold step (map (\<lambda>k. Tick t (real k / 10)) ks) s = s"
  using assms(2)
proof (induction ks)
  case Nil
  then show ?case by simp
next
  case (Cons k ks)
  then have "0 < real k / 10" by simp
  with assms(1) have "\<forall>n \<in> set (notes s). note_startTime n * beatDuration s / 1000 < real k / 10"
    by fastforce
  then have "scheduleNotes (real k / 10) s = s" by (rule scheduleNotes_none)
  with Cons show ?case by simp
qed

text \<open>
  Claim C1. While Playing, a tick is to take each note's start time as an offset from the
  clock reading captured when playback started, and to dispatch the note exactly when
  that time lies within 100 ms ahead of the current clock. Playback of a pattern whose
  only note sits on beat 1 starts at audio clock 5 s at 120 bpm: the reading 5 is
  captured, the note is due at 5 + 0.5 s, inside the window of the tick at 5.5 s, and
  no tick of the first 600 ms dispatches anything, because \<open>scheduleNotes\<close> compares
  0.5 s itself with the clock.
\<close>

theorem C1_tick_ignores_reference_clock:
  "let s0 = run [Click 5] (mounted 120 1 [note_at_beat1]);
       due = lastTimeRef s0 + note_startTime note_at_beat1 * beatDuration s0 / 1000;
       s = run [Tick 2 5.1, Tick 2 5.2, Tick 2 5.3, Tick 2 5.4, Tick 2 5.5, Tick 2 5.6] s0
   in isPlaying s0 \<and> lastTimeRef s0 = 5 \<and> intervals s0 = [2] \<and>
      due = 5.5 \<and> 5.5 \<le> due \<and> due < 5.5 + 0.1 \<and>
      graph s = []"
  by (simp add: sequencer_defs note_at_beat1_def)

text \<open>
  Claim C2. Every note is to be dispatched at most once per playthrough, and a note on
  beat 0 of a 4-beat pattern at 120 bpm exactly once in each of the five loop
  iterations of 10 s of playback. With a tick every 100 ms for 10 s the scheduler
  dispatches that note not at all, and once in all when a tick also runs at clock 0: it
  never wraps the clock around the pattern length. And when a late tick at 0.91 s is
  followed by the one at 0.95 s, the note on beat 2 (due at 1 s) is dispatched by both.
\<close>

theorem C2_no_dispatch_per_loop_and_double_dispatch:
  "(let s = run (Click 0 # map (\<lambda>k. Tick 2 (real k / 10)) [1..<101])
              (mounted 120 1 [note_at_beat0])
    in isPlaying s \<and> intervals s = [2] \<and> totalBeats s = 4 \<and> length (graph s) = 0) \<and>
   (let s = run (Click 0 # Tick 2 0 # map (\<lambda>k. Tick 2 (real k / 10)) [1..<101])
              (mounted 120 1 [note_at_beat0])
    in length (graph s) = 1) \<and>
   (let s = run [Click 0.05, Tick 2 0.15, Tick 2 0.25, Tick 2 0.35, Tick 2 0.45, Tick 2 0.55,
                 Tick 2 0.65, Tick 2 0.75, Tick 2 0.91, Tick 2 0.95]
              (mounted 120 1 [note_at_beat2])
    in map osc_owner (graph s) = [''note-2'', ''note-2''] \<and> map osc_start (graph s) = [1, 1])"
proof -
  let ?s1 = "step (Click 0) (mounted 120 1 [note_at_beat0])"
  let ?s2 = "step (Tick 2 0) ?s1"
  have a1: "\<forall>n \<in> set (notes ?s1). note_startTime n * beatDuration ?s1 / 1000 \<le> 0"
    by (simp add: togglePlay_def startSequencer_def mounted_def note_at_beat0_def Let_def)
  have a2: "\<forall>n \<in> set (notes ?s2). note_startTime n * beatDuration ?s2 / 1000 \<le> 0"
    by (simp add: sequencer_defs note_at_beat0_def)
  have b: "\<forall>k \<in> set [1..<101]. 0 < k" by simp
  have "run (Click 0 # map (\<lambda>k. Tick 2 (real k / 10)) [1..<101])
          (mounted 120 1 [note_at_beat0]) = ?s1"
    unfolding run_def fold_simps using ticks_after_every_start [OF a1 b] by simp
  then have first: "let s = run (Click 0 # map (\<lambda>k. Tick 2 (real k / 10)) [1..<101])
              (mounted 120 1 [note_at_beat0])
    in isPlaying s \<and> intervals s = [2] \<and> totalBeats s = 4 \<and> length (graph s) = 0"
    by (simp add: togglePlay_def startSequencer_def mounted_def totalBeats_def Let_def)
  have "run (Click 0 # Tick 2 0 # map (\<lambda>k. Tick 2 (real k / 10)) [1..<101])
          (mounted 120 1 [note_at_beat0]) = ?s2"
    unfolding run_def fold_simps using ticks_after_every_start [OF a2 b] by simp
  then have second: "let s = run (Click 0 # Tick 2 0 # map (\<lambda>k. Tick 2 (real k / 10)) [1..<101])
              (mounted 120 1 [note_at_beat0])
    in length (graph s) = 1"
    by (simp add: sequencer_defs note_at_beat0_def)
  have third: "let s = run [Click 0.05, Tick 2 0.15, Tick 2 0.25, Tick 2 0.35, Tick 2 0.45,
                 Tick 2 0.55, Tick 2 0.65, Tick 2 0.75, Tick 2 0.91, Tick 2 0.95]
              (mounted 120 1 [note_at_beat2])
    in map osc_owner (graph s) = [''note-2'', ''note-2''] \<and> map osc_start (graph s) = [1, 1]"
    by (simp add: sequencer_defs note_at_beat2_def)
  from first second third show ?thesis by (intro conjI)
qed

subsection \<open>Stopping\<close>

text \<open>
  Dispatching touches neither the playing flag nor the timer, so the timer's bookkeeping
  holds in every state the component reaches from the mounted one.
\<close>

lemma playNote_timer_fields:
  "isPlaying (playNote n start dur s) = isPlaying s \<and>
   schedulerIntervalRef (playNote n start dur s) = schedulerIntervalRef s \<and>
   intervals (playNote n start dur s) = intervals s \<and>
   next_handle (playNote n start dur s) = next_handle s"
  by (simp add: playNote_def Let_def)

lemma fold_keeps:
  assumes "\<And>x s. P (f x s) = P s"
  shows "P (fold f xs s) = P s"
  using assms by (induction xs arbitrary: s) simp_all

lemma scheduleNotes_timer_fields:
  "isPlaying (scheduleNotes now s) = isPlaying s \<and>
   schedulerIntervalRef (scheduleNotes now s) = schedulerIntervalRef s \<and>
   intervals (scheduleNotes now s) = intervals s \<and>
   next_handle (scheduleNotes now s) = next_handle s"
proof -
  let ?F = "(\<lambda>n s'.
               let noteStartTime = note_startTime n * beatDuration s / 1000;
                   noteDuration = note_duration n * beatDuration s / 1000;
                   noteEndTime = noteStartTime + noteDuration
               in if noteStartTime \<ge> now \<and> noteStartTime < now + 0.1
                  then playNote n noteStartTime noteDuration s'
                  else s')"
  have "(\<lambda>s. (isPlaying s, schedulerIntervalRef s, intervals s, next_handle s)) (fold ?F (notes s) s)
       = (\<lambda>s. (isPlaying s, schedulerIntervalRef s, intervals s, next_handle s)) s"
    by (rule fold_keeps) (simp add: Let_def playNote_timer_fields)
  then show ?thesis
    by (simp add: scheduleNotes_def Let_def)
qed

lemma scheduler_timer_mounted: "scheduler_timer (mounted b nbars ns)"
  by (simp add: scheduler_timer_def mounted_def)

lemma scheduler_timer_step: "scheduler_timer s \<Longrightarrow> scheduler_timer (step e s)"
proof (cases e)
  case (Click now)
  assume "scheduler_timer s"
  then show ?thesis using Click
    by (auto simp: scheduler_timer_def togglePlay_def startSequencer_def stopSequencer_def
        stopAllNotes_def truthy_def Let_def split: option.splits)
next
  case (Tick t now)
  assume "scheduler_timer s"
  then show ?thesis using Tick
    by (auto simp: scheduler_timer_def scheduleNotes_timer_fields split: option.splits)
next
  case (Frame f now)
  assume "scheduler_timer s"
  then show ?thesis using Frame
    by (auto simp: scheduler_timer_def playStep_def Let_def split: option.splits)
next
  case (Ended h)
  assume "scheduler_timer s"
  then show ?thesis using Ended
    by (auto simp: scheduler_timer_def onended_def split: option.splits)
qed

lemma scheduler_timer_run: "scheduler_timer s \<Longrightarrow> scheduler_timer (run evs s)"
  unfolding run_def by (induction evs arbitrary: s) (simp_all add: scheduler_timer_step)

text \<open>
  A click while playing clears the interval and empties the table of oscillators; every
  oscillator the table held is stopped and disconnected; and as long as Play is not
  clicked again, no event creates an oscillator.
\<close>

lemma stop_clears_timer:
  assumes "scheduler_timer s" and "isPlaying s"
  shows "\<not> isPlaying (step (Click now) s) \<and> intervals (step (Click now) s) = [] \<and>
         schedulerIntervalRef (step (Click now) s) = None \<and>
         oscillators (step (Click now) s) = []"
  using assms
  by (auto simp: scheduler_timer_def togglePlay_def stopSequencer_def stopAllNotes_def
      truthy_def Let_def split: option.splits)

lemma stopAllNotes_silences:
  assumes "(k, h) \<in> set (oscillators s)" and "h < length (graph s)"
  shows "osc_stopped (graph (stopAllNotes s) ! h) \<and> \<not> osc_connected (graph (stopAllNotes s) ! h)"
proof -
  let ?f = "\<lambda>(k, h) g. g[h := (g ! h)\<lparr>osc_stopped := True, osc_connected := False\<rparr>]"
  have len: "length (fold ?f os g) = length g" for os g
    by (induction os arbitrary: g) (auto split: prod.splits)
  have keep: "osc_stopped (g ! h) \<and> \<not> osc_connected (g ! h) \<Longrightarrow> h < length g \<Longrightarrow>
      osc_stopped (fold ?f os g ! h) \<and> \<not> osc_connected (fold ?f os g ! h)" for os g
  proof (induction os arbitrary: g)
    case Nil
    then show ?case by simp
  next
    case (Cons a os)
    obtain k' h' where a: "a = (k', h')" by (cases a)
    have "osc_stopped (?f a g ! h) \<and> \<not> osc_connected (?f a g ! h)"
      using Cons.prems a by (cases "h' = h") simp_all
    moreover have "h < length (?f a g)" using Cons.prems a by simp
    ultimately show ?case using Cons.IH [of "?f a g"] by simp
  qed
  have "osc_stopped (fold ?f os g ! h) \<and> \<not> osc_connected (fold ?f os g ! h)"
    if "(k, h) \<in> set os" and "h < length g" for os g
    using that
  proof (induction os arbitrary: g)
    case Nil
    then show ?case by simp
  next
    case (Cons a os)
    obtain k' h' where a: "a = (k', h')" by (cases a)
    show ?case
    proof (cases "a = (k, h)")
      case True
      then have "osc_stopped (?f a g ! h) \<and> \<not> osc_connected (?f a g ! h)"
        using Cons.prems by simp
      moreover have "h < length (?f a g)" using Cons.prems a by simp
      ultimately show ?thesis using keep [of "?f a g" os] by simp
    next
      case False
      with Cons.prems have "(k, h) \<in> set os" by simp
      moreover have "h < length (?f a g)" using Cons.prems a by simp
      ultimately show ?thesis using Cons.IH [of "?f a g"] by simp
    qed
  qed
  from this [OF assms] show ?thesis by (simp add: stopAllNotes_def)
qed

lemma silent_after_stop:
  assumes "intervals s = []" and "\<forall>e \<in> set evs. \<not> is_click e"
  shows "intervals (run evs s) = [] \<and> length (graph (run evs s)) = length (graph s)"
  using assms unfolding run_def
proof (induction evs arbitrary: s)
  case Nil
  then show ?case by simp
next
  case (Cons e evs)
  have "intervals (step e s) = [] \<and> length (graph (step e s)) = length (graph s)"
  proof (cases e)
    case (Click now)
    with Cons.prems show ?thesis by (simp add: is_click_def)
  next
    case (Tick t now)
    with Cons.prems show ?thesis by simp
  next
    case (Frame f now)
    with Cons.prems show ?thesis by (auto simp: playStep_def Let_def split: option.splits)
  next
    case (Ended h)
    with Cons.prems show ?thesis by (simp add: onended_def)
  qed
  with Cons show ?case by simp
qed

text \<open>
  Claim C4. After the stop the timer and the frame update are to be cancelled, every
  sounding note silenced, and nothing dispatched any more. Playback of the note on beat
  2 starts at 0.05 s; the tick due at 0.85 s runs late, at 0.91 s, the next one on time
  at 0.95 s, so the note (sounding from 1 s to 1.55 s) gets two oscillators, and the
  table of oscillators, keyed by the note's id, keeps the second only. The stop at 1.2 s
  clears the timer, and the tick that would follow dispatches nothing, but the first
  oscillator is neither stopped nor disconnected.
\<close>

theorem C4_stop_leaves_an_oscillator_sounding:
  "let s = run [Click 0.05, Frame 1 0.07, Tick 2 0.15, Tick 2 0.25, Tick 2 0.35, Tick 2 0.45,
                Tick 2 0.55, Tick 2 0.65, Tick 2 0.75, Tick 2 0.91, Tick 2 0.95, Tick 2 1.05,
                Tick 2 1.15, Click 1.2, Tick 2 1.25]
             (mounted 120 1 [note_at_beat2])
   in \<not> isPlaying s \<and> intervals s = [] \<and> schedulerIntervalRef s = None \<and>
      frames s = [] \<and> rafRef s = None \<and> oscillators s = [] \<and>
      map osc_owner (graph s) = [''note-2'', ''note-2''] \<and>
      map osc_start (graph s) = [1, 1] \<and> map osc_stop (graph s) = [1.55, 1.55] \<and>
      map osc_stopped (graph s) = [False, True] \<and>
      map osc_connected (graph s) = [True, False]"
  by (simp add: sequencer_defs playStep_def note_at_beat2_def)

subsection \<open>Envelope\<close>

text \<open>
  Claim C6, as stated: for every peak, envelope and duration, dispatching a note
  schedules the gain breakpoints of that envelope; for the envelope 0.1, 0.2, 0.7, 0.5
  and peak 1 the gain is 1 at 0.1 (the attack) and 0.7 at 0.3 (attack + decay). The
  dispatch has no envelope to be given: a note of peak 1 dispatched at time 0 for 2 s
  gets the ramp to 1 at 0.01, the ramp to 0.7 at 0.11 and the hold set at 1.7, not the
  breakpoints of the envelope 0.1, 0.2, 0.7, 0.5.
\<close>

theorem C6_counterexample_fixed_envelope:
  "let evs = osc_gain_events (last (graph (playNote loud_note 0 2 (mounted 120 4 []))))
   in evs = [SetValueAtTime 0 0,
             LinearRampToValueAtTime 1 0.01,
             LinearRampToValueAtTime 0.7 0.11,
             SetValueAtTime 0.7 1.7,
             LinearRampToValueAtTime 0 2] \<and>
      evs \<noteq> [SetValueAtTime 0 0,
              LinearRampToValueAtTime 1 0.1,
              LinearRampToValueAtTime 0.7 (0.1 + 0.2),
              SetValueAtTime 0.7 (2 - 0.5),
              LinearRampToValueAtTime 0 2]"
  by (simp add: playNote_def mounted_def loud_note_def Let_def)

text \<open>
  Claim C6, amended: with the audio context and the gain node present, dispatching a
  note of peak \<open>v\<close> at \<open>start\<close> for a duration \<open>d\<close> adds one oscillator and makes, on its
  gain and in this order, the automation calls of the one envelope \<open>playNote\<close> has
  (attack 0.01, decay 0.1, sustain 0.7, release 0.3): 0 set at start, a ramp to \<open>v\<close> at
  start + 0.01, a ramp to \<open>0.7 v\<close> at start + 0.11, \<open>0.7 v\<close> set at start + d - 0.3
  and a ramp to 0 at start + d. The times of the calls are in order when \<open>d\<close> is at
  least 0.41, and the values are 0, \<open>v\<close>, \<open>0.7 v\<close>, \<open>0.7 v\<close>, 0.
\<close>

theorem C6_envelope_breakpoints:
  assumes "audioContext s" and "gainNode s"
  shows "graph (playNote n start d s) = graph s @ [last (graph (playNote n start d s))]
       \<and> osc_gain_events (last (graph (playNote n start d s))) =
           [SetValueAtTime 0 start,
            LinearRampToValueAtTime (note_velocity n) (start + 0.01),
            LinearRampToValueAtTime (note_velocity n * 0.7) (start + 0.01 + 0.1),
            SetValueAtTime (note_velocity n * 0.7) (start + d - 0.3),
            LinearRampToValueAtTime 0 (start + d)]
       \<and> map event_value (osc_gain_events (last (graph (playNote n start d s)))) =
           [0, note_velocity n, note_velocity n * 0.7, note_velocity n * 0.7, 0]
       \<and> (0.41 \<le> d \<longrightarrow>
            sorted (map event_time (osc_gain_events (last (graph (playNote n start d s))))))"
  using assms by (simp add: playNote_def Let_def)

theorem C6_witness:
  "audioContext (mounted 120 4 []) \<and> gainNode (mounted 120 4 []) \<and> (0.41::real) \<le> 2 \<and>
   osc_gain_events (last (graph (playNote loud_note 0 2 (mounted 120 4 [])))) =
     [SetValueAtTime 0 0,
      LinearRampToValueAtTime 1 0.01,
      LinearRampToValueAtTime 0.7 0.11,
      SetValueAtTime 0.7 1.7,
      LinearRampToValueAtTime 0 2] \<and>
   sorted (map event_time
     (osc_gain_events (last (graph (playNote loud_note 0 2 (mounted 120 4 []))))))"
proof -
  have a: "audioContext (mounted 120 4 [])" and g: "gainNode (mounted 120 4 [])"
    by (simp_all add: mounted_def)
  from C6_envelope_breakpoints [OF a g, of loud_note 0 2] a g
  show ?thesis
    by (simp add: loud_note_def)
qed

section \<open>Recording timer: properties\<close>

lemmas recording_defs =
  RecordingControls_startRecording_def RecordingControls_stopRecording_def
  recordNoteIfRecording_def handleNoteAdded_def handleStartRecording_def
  handleStopRecording_def handleRecordingComplete_def startRecording_def stopRecording_def
  startMetronome_def stopMetronome_def truthy_number_def truthy_def Let_def

lemma startRecording_state:
  "isRecording (startRecording t r) \<and> startTimeRef (startRecording t r) = Some t \<and>
   recordedNotes (startRecording t r) = [] \<and> completed (startRecording t r) = completed r"
  by (simp add: startRecording_def startMetronome_def Let_def)

lemma stopRecording_completed:
  "completed (stopRecording r) = completed r @ [recordedNotes r] \<and>
   \<not> isRecording (stopRecording r)"
  by (simp add: stopRecording_def stopMetronome_def Let_def)

lemma addNoteToRecording_dropped:
  "\<not> isRecording r \<or> startTimeRef r = None \<or> startTimeRef r = Some 0 \<Longrightarrow>
   addNoteToRecording pitch oct now r = r"
  by (auto simp: addNoteToRecording_def truthy_number_def)

text \<open>
  With both start timestamps different from 0, a note played while recording is appended
  to the recorder's buffer with the page's octave and its time against the page's
  timestamp.
\<close>

lemma recordNoteIfRecording_appends:
  assumes "sb_isRecording p" and "recordingStartTimeRef p = Some t'" and "t' \<noteq> 0"
    and "showRecordingModal p" and "isRecording (controls p)"
    and "startTimeRef (controls p) = Some t" and "t \<noteq> 0"
  shows "recordedNotes (controls (recordNoteIfRecording pitch now p)) =
           recordedNotes (controls p) @
           [\<lparr>rec_note = pitch, rec_octave = sb_octave p, rec_time = now - t'\<rparr>]"
  using assms
  by (simp add: recordNoteIfRecording_def handleNoteAdded_def truthy_number_def Let_def)

text \<open>
  A recording started when the clock reads \<open>t\<close>, not 0, at both readings, given notes
  0, 500 and 1000 ms later and stopped, hands over exactly these three entries.
\<close>

lemma recording_three_notes:
  assumes "t \<noteq> 0" and "showRecordingModal p"
  shows "completed (controls
           (RecordingControls_stopRecording
             (recordNoteIfRecording p3 (t + 1000)
               (recordNoteIfRecording p2 (t + 500)
                 (recordNoteIfRecording p1 (t + 0)
                   (RecordingControls_startRecording t t p)))))) =
         completed (controls p) @
           [[\<lparr>rec_note = p1, rec_octave = sb_octave p, rec_time = 0\<rparr>,
             \<lparr>rec_note = p2, rec_octave = sb_octave p, rec_time = 500\<rparr>,
             \<lparr>rec_note = p3, rec_octave = sb_octave p, rec_time = 1000\<rparr>]]"
  using assms
  by (simp add: RecordingControls_startRecording_def RecordingControls_stopRecording_def
      recordNoteIfRecording_def handleNoteAdded_def handleStartRecording_def
      handleStopRecording_def handleRecordingComplete_def startRecording_state
      stopRecording_completed truthy_number_def Let_def)

text \<open>
  The offsets are taken against the page's reading of the clock, not the recorder's: when
  the clock moves from 1000 to 1001 between the two readings, a note at 1500 is entered
  with 499.
\<close>

lemma offsets_follow_the_pages_clock:
  "map rec_time
     (recordedNotes (controls
       (recordNoteIfRecording ''C'' 1500
         (RecordingControls_startRecording 1000 1001 recording_page)))) = [499] \<and>
   startTimeRef (controls (RecordingControls_startRecording 1000 1001 recording_page)) =
     Some 1000"
  by (simp add: recording_defs recording_page_def idle_def)

text \<open>
  Claim C5. Entering Recording captures a start timestamp and empties the buffer, every
  note played while Recording is appended with its offset from the start, and three
  notes at 0, 500 and 1000 ms give a buffer of exactly those three entries. On a clock
  that reads 0 when the recording starts (a simulated clock), the recorder and the page
  both store 0 and both raise their flags, and then each of the three notes is dropped:
  \<open>recordNoteIfRecording\<close> and \<open>handleNoteAdded\<close> test the stored timestamp for
  truthiness. The buffer handed over at the stop is empty.
\<close>

theorem C5_notes_dropped_when_clock_starts_at_zero:
  "let p0 = RecordingControls_startRecording 0 0 recording_page;
       p = RecordingControls_stopRecording
             (recordNoteIfRecording ''E'' 1000
               (recordNoteIfRecording ''D'' 500
                 (recordNoteIfRecording ''C'' 0 p0)))
   in isRecording (controls p0) \<and> startTimeRef (controls p0) = Some 0 \<and>
      recordedNotes (controls p0) = [] \<and>
      sb_isRecording p0 \<and> recordingStartTimeRef p0 = Some 0 \<and>
      completed (controls p) = [[]] \<and> recordedSequence p = []"
  by (simp add: recording_defs recording_page_def idle_def)

section \<open>In-memory store: properties\<close>

lemmas store_defs =
  MemStorage_new_def createSoundPack_def createSound_def post_purchases_def
  delete_soundpacks_def createPurchase_def updateSoundPack_def getSoundPack_def
  hasPurchased_def getUserPurchases_def deleteSoundPack_def deleteSound_def
  getSoundsByPackId_def spread_def no_updates_def string_or_null_def js_succ_def Let_def

text \<open>
  Claim C9. In every store reachable through the storage and its routes, each stored
  purchase is to reference a pack that exists. A pack is created and given a sound, user
  7 buys it through the purchase route (201), and the pack is deleted through the delete
  route (200): the pack's sound is removed with it, the purchase stays and names pack 1,
  which the store no longer holds.
\<close>

theorem C9_purchase_outlives_its_pack:
  "let s1 = snd (createSoundPack grand_pack 1000 MemStorage_new);
       s2 = snd (createSound grand_sound 1500 s1);
       (a, s3) = post_purchases (Some 7) (Some 1) 2000 2001 s2;
       (b, s4) = delete_soundpacks (Some 1) s3
   in a = 201 \<and> b = 200 \<and>
      map fst (sounds s3) = [1] \<and> sounds s4 = [] \<and>
      map (purchase_packId \<circ> snd) (purchases s4) = [1] \<and>
      getSoundPack 1 s4 = None \<and> soundPacks s4 = []"
  by (simp add: store_defs grand_pack_def grand_sound_def)

subsection \<open>The frame of \<open>createPurchase\<close>\<close>

text \<open>
  Every pack the storage creates or updates is stored under its own id, so this holds in
  each store the storage's operations reach from the empty one.
\<close>

lemma list_all_update:
  "list_all P al \<Longrightarrow> P (k, v) \<Longrightarrow> list_all P (AList.update k v al)"
  by (induction al) auto

lemma list_all_delete: "list_all P al \<Longrightarrow> list_all P (AList.delete k al)"
  by (induction al) auto

lemma packs_keyed_lookup:
  "packs_keyed st \<Longrightarrow> getSoundPack k st = Some p \<Longrightarrow> pack_id p = k"
  by (auto simp: packs_keyed_def getSoundPack_def list_all_iff dest: map_of_SomeD)

lemma packs_keyed_new: "packs_keyed MemStorage_new"
  by (simp add: packs_keyed_def MemStorage_new_def)

lemma packs_keyed_createSoundPack:
  "packs_keyed st \<Longrightarrow> packs_keyed (snd (createSoundPack ins now st))"
  by (simp add: packs_keyed_def createSoundPack_def Let_def list_all_update)

lemma packs_keyed_updateSoundPack:
  "packs_keyed st \<Longrightarrow> packs_keyed (snd (updateSoundPack k u now st))"
  by (simp add: packs_keyed_def updateSoundPack_def Let_def list_all_update split: option.splits)

lemma packs_keyed_createSound:
  "packs_keyed st \<Longrightarrow> packs_keyed (snd (createSound ins now st))"
  by (simp add: packs_keyed_def createSound_def Let_def)

lemma deleteSound_soundPacks: "soundPacks (snd (deleteSound k st)) = soundPacks st"
  by (simp add: deleteSound_def)

lemma packs_keyed_deleteSoundPack:
  "packs_keyed st \<Longrightarrow> packs_keyed (snd (deleteSoundPack k st))"
proof -
  have kept: "soundPacks (fold (\<lambda>sound acc. snd (deleteSound (sound_id sound) acc)) xs st) =
      soundPacks st" for xs
    by (induction xs arbitrary: st) (simp_all add: deleteSound_soundPacks)
  show "packs_keyed st \<Longrightarrow> packs_keyed (snd (deleteSoundPack k st))"
    by (simp add: packs_keyed_def deleteSoundPack_def Let_def list_all_delete kept)
qed

lemma packs_keyed_createPurchase:
  "packs_keyed st \<Longrightarrow> packs_keyed (snd (createPurchase ip now later st))"
  by (simp add: packs_keyed_def createPurchase_def updateSoundPack_def getSoundPack_def Let_def list_all_update split: option.splits)

lemma spread_downloads:
  "(spread p (no_updates\<lparr>upd_downloads := Some d\<rparr>))\<lparr>pack_updatedAt := later, pack_id := k\<rparr> =
     p\<lparr>pack_downloads := d, pack_updatedAt := later, pack_id := k\<rparr>"
  by (cases p) (simp add: spread_def no_updates_def)

lemma createPurchase_existing:
  assumes "getSoundPack (ins_purchase_packId ip) st = Some p"
  shows "snd (createPurchase ip now later st) =
           st\<lparr>purchaseIdCounter := js_succ (purchaseIdCounter st),
              purchases :=
                AList.update (purchaseIdCounter st)
                  \<lparr>purchase_id = purchaseIdCounter st,
                   purchase_userId = ins_purchase_userId ip,
                   purchase_packId = ins_purchase_packId ip,
                   purchase_price = ins_purchase_price ip,
                   purchase_createdAt = now\<rparr>
                  (purchases st),
              soundPacks :=
                AList.update (ins_purchase_packId ip)
                  (p\<lparr>pack_downloads := js_succ (pack_downloads p), pack_updatedAt := later,
                     pack_id := ins_purchase_packId ip\<rparr>)
                  (soundPacks st)\<rparr>"
  using assms
  by (simp add: createPurchase_def updateSoundPack_def getSoundPack_def spread_downloads
      Let_def)

lemma update_present_keys:
  "map_of al k = Some v \<Longrightarrow> map fst (AList.update k w al) = map fst al"
  by (induction al) (auto split: if_splits)

lemma js_succ_safe: "\<bar>n\<bar> < 2 ^ 53 \<Longrightarrow> js_succ n = n + 1"
  unfolding js_succ_def by auto

text \<open>
  Claim C10, as stated: for a pack that exists, \<open>createPurchase\<close> raises the pack's
  download count by exactly one. The count is a JavaScript number: once a pack's count
  has been set to \<open>2^53\<close> = 9007199254740992, which \<open>updateSoundPack\<close> allows, a purchase
  of that pack leaves the count where it was.
\<close>

theorem C10_counterexample_count_at_2_53:
  "let st = snd (updateSoundPack 1 (no_updates\<lparr>upd_downloads := Some 9007199254740992\<rparr>)
                   1500 two_packs);
       st' = snd (createPurchase
                    \<lparr>ins_purchase_userId = 7, ins_purchase_packId = 1,
                     ins_purchase_price = 499\<rparr>
                    2000 2001 st)
   in (9007199254740992::int) = 2 ^ 53 \<and> packs_keyed st \<and>
      map (pack_downloads \<circ> snd) (soundPacks st) = [9007199254740992, 0] \<and>
      map (pack_downloads \<circ> snd) (soundPacks st') = [9007199254740992, 0] \<and>
      map (purchase_packId \<circ> snd) (purchases st') = [1]"
  by (simp add: two_packs_def store_defs packs_keyed_def grand_pack_def organ_pack_def)

text \<open>
  Claim C10, amended: when the purchased pack exists and its download count is a safe
  integer (below \<open>2^53\<close> in size), in a store whose packs are stored under their own
  ids (as every store the storage builds is), \<open>createPurchase\<close> raises that pack's
  download count by exactly one and sets its update time, leaves the pack's other fields
  as they were, and leaves every other pack, the order of the packs, and all sounds,
  reviews and users unchanged.
\<close>

theorem C10_createPurchase_frame:
  assumes "getSoundPack (ins_purchase_packId ip) st = Some p"
    and "packs_keyed st"
    and "\<bar>pack_downloads p\<bar> < 2 ^ 53"
  shows "getSoundPack (ins_purchase_packId ip) (snd (createPurchase ip now later st)) =
           Some (p\<lparr>pack_downloads := pack_downloads p + 1, pack_updatedAt := later\<rparr>)
       \<and> (\<forall>k. k \<noteq> ins_purchase_packId ip \<longrightarrow>
            getSoundPack k (snd (createPurchase ip now later st)) = getSoundPack k st)
       \<and> map fst (soundPacks (snd (createPurchase ip now later st))) = map fst (soundPacks st)
       \<and> sounds (snd (createPurchase ip now later st)) = sounds st
       \<and> reviews (snd (createPurchase ip now later st)) = reviews st
       \<and> users (snd (createPurchase ip now later st)) = users st"
proof -
  have "pack_id p = ins_purchase_packId ip"
    using assms(2,1) by (rule packs_keyed_lookup)
  then have same: "p\<lparr>pack_downloads := js_succ (pack_downloads p), pack_updatedAt := later,
                pack_id := ins_purchase_packId ip\<rparr> =
              p\<lparr>pack_downloads := pack_downloads p + 1, pack_updatedAt := later\<rparr>"
    using js_succ_safe [OF assms(3)] by simp
  have present: "map_of (soundPacks st) (ins_purchase_packId ip) = Some p"
    using assms(1) by (simp add: getSoundPack_def)
  show ?thesis
    unfolding createPurchase_existing [OF assms(1)] same
    using present by (simp add: getSoundPack_def update_conv' update_present_keys)
qed

theorem C10_witness:
  "getSoundPack 1 two_packs = Some (fst (createSoundPack grand_pack 1000 MemStorage_new)) \<and>
   packs_keyed two_packs \<and>
   \<bar>pack_downloads (fst (createSoundPack grand_pack 1000 MemStorage_new))\<bar> < 2 ^ 53 \<and>
   map (pack_downloads \<circ> snd) (soundPacks two_packs) = [0, 0] \<and>
   getSoundPack 1
     (snd (createPurchase
            \<lparr>ins_purchase_userId = 7, ins_purchase_packId = 1, ins_purchase_price = 499\<rparr>
            2000 2001 two_packs)) =
     Some ((fst (createSoundPack grand_pack 1000 MemStorage_new))
             \<lparr>pack_downloads := 1, pack_updatedAt := 2001\<rparr>) \<and>
   getSoundPack 2
     (snd (createPurchase
            \<lparr>ins_purchase_userId = 7, ins_purchase_packId = 1, ins_purchase_price = 499\<rparr>
            2000 2001 two_packs)) =
     getSoundPack 2 two_packs \<and>
   map fst
     (soundPacks
       (snd (createPurchase
              \<lparr>ins_purchase_userId = 7, ins_purchase_packId = 1, ins_purchase_price = 499\<rparr>
              2000 2001 two_packs))) = [1, 2]"
proof -
  let ?ip = "\<lparr>ins_purchase_userId = 7, ins_purchase_packId = 1, ins_purchase_price = 499\<rparr>"
  let ?p = "fst (createSoundPack grand_pack 1000 MemStorage_new)"
  have found: "getSoundPack (ins_purchase_packId ?ip) two_packs = Some ?p"
    by (simp add: two_packs_def store_defs grand_pack_def organ_pack_def)
  have keyed: "packs_keyed two_packs"
    unfolding two_packs_def
    by (intro packs_keyed_createSoundPack packs_keyed_new)
  have safe: "\<bar>pack_downloads ?p\<bar> < 2 ^ 53"
    by (simp add: store_defs)
  from C10_createPurchase_frame [OF found keyed safe, of 2000 2001] found keyed safe
  show ?thesis
    by (simp add: two_packs_def store_defs grand_pack_def organ_pack_def)
qed

end
